theory Spec2Isabelle
  imports Complex_Main "HOL-Library.Multiset"
begin

section \<open>Data model\<close>

text \<open>
  The tariff is the string \<open>'day'\<close> or \<open>'night'\<close> in the source; the two values are the
  constructors of an enumeration here.
\<close>

datatype tariff = Day | Night

text \<open>
  A season as stored under the settings key \<open>seasons\<close>. The numeric fields are JavaScript
  numbers holding integers; \<open>dayStart\<close> and \<open>dayEnd\<close> are strings that may be missing
  (\<open>None\<close>).
\<close>

record season =
  name :: string
  startMonth :: int
  startDay :: int
  endMonth :: int
  endDay :: int
  dayStart :: "string option"
  dayEnd :: "string option"

text \<open>
  The settings store \<open>homey.settings\<close> with its four keys; \<open>None\<close> is the \<open>null\<close> that
  \<open>get\<close> returns for a key never set. JavaScript numbers are modelled as exact reals.
\<close>

record settings =
  currency :: "string option"
  dayRate :: "real option"
  nightRate :: "real option"
  seasons :: "season list option"

text \<open>
  One reading of the wall clock (\<open>new Date()\<close> / \<open>Date.now()\<close>): the epoch milliseconds and
  the local calendar fields the source reads through the \<open>Date\<close> getters. \<open>getMonth\<close> is
  zero-based as in JavaScript.
\<close>

record clock =
  epoch_ms :: int
  getFullYear :: int
  getMonth :: int
  getDate :: int
  getHours :: nat
  getMinutes :: nat

text \<open>
  \<open>toDateString()\<close> prints weekday, month, day of month and year of the local date. The
  source only compares two such strings for equality, and the string is determined by, and
  determines, the triple (year, month, day of month); the triple stands for the string.
\<close>

type_synonym dateString = "int \<times> int \<times> int"

definition toDateString :: "clock \<Rightarrow> dateString" where
  "toDateString d = (getFullYear d, getMonth d, getDate d)"

section \<open>Season calendar\<close>

text \<open>\<open>isDateInSeason\<close> of \<open>drivers/tariff-meter/device.js\<close>.\<close>

definition isDateInSeason :: "int \<Rightarrow> int \<Rightarrow> season \<Rightarrow> bool" where
  "isDateInSeason month dayOfMonth s =
     (if startMonth s > endMonth s
      then (month > startMonth s \<or> (month = startMonth s \<and> dayOfMonth \<ge> startDay s)) \<or>
           (month < endMonth s \<or> (month = endMonth s \<and> dayOfMonth \<le> endDay s))
      else (month > startMonth s \<or> (month = startMonth s \<and> dayOfMonth \<ge> startDay s)) \<and>
           (month < endMonth s \<or> (month = endMonth s \<and> dayOfMonth \<le> endDay s)))"

text \<open>\<open>isDateInSeason\<close> of \<open>app.js\<close>, a second copy of the same method.\<close>

definition app_isDateInSeason :: "int \<Rightarrow> int \<Rightarrow> season \<Rightarrow> bool" where
  "app_isDateInSeason month dayOfMonth s =
     (if startMonth s > endMonth s
      then (month > startMonth s \<or> (month = startMonth s \<and> dayOfMonth \<ge> startDay s)) \<or>
           (month < endMonth s \<or> (month = endMonth s \<and> dayOfMonth \<le> endDay s))
      else (month > startMonth s \<or> (month = startMonth s \<and> dayOfMonth \<ge> startDay s)) \<and>
           (month < endMonth s \<or> (month = endMonth s \<and> dayOfMonth \<le> endDay s)))"

text \<open>
  The specification's wording of the comparison: \<open>(month, day) \<le> (month', day')\<close>,
  lexicographic on the pair.
\<close>

definition pair_le :: "int \<times> int \<Rightarrow> int \<times> int \<Rightarrow> bool" where
  "pair_le a b = (fst a < fst b \<or> (fst a = fst b \<and> snd a \<le> snd b))"

text \<open>The default winter season that \<open>initializeSettings\<close> stores: 1 November to 31 March.\<close>

definition winter :: season where
  "winter = \<lparr> name = ''Winter'', startMonth = 11, startDay = 1, endMonth = 3, endDay = 31,
              dayStart = Some ''06:00'', dayEnd = Some ''22:00'' \<rparr>"

definition summer :: season where
  "summer = \<lparr> name = ''Summer'', startMonth = 4, startDay = 1, endMonth = 10, endDay = 31,
              dayStart = Some ''07:00'', dayEnd = Some ''23:00'' \<rparr>"

text \<open>
  \<open>getCurrentSeason\<close>: the first season of the list that contains the date, else the first
  season, else \<open>null\<close>. \<open>seasons || []\<close> replaces only \<open>null\<close>: an array is never falsy.
\<close>

definition getCurrentSeason :: "settings \<Rightarrow> clock \<Rightarrow> season option" where
  "getCurrentSeason st now =
     (let month = getMonth now + 1;
          dayOfMonth = getDate now;
          ss = (case seasons st of None \<Rightarrow> [] | Some l \<Rightarrow> l)
      in case find (isDateInSeason month dayOfMonth) ss of
           Some s \<Rightarrow> Some s
         | None \<Rightarrow> (case ss of [] \<Rightarrow> None | s # _ \<Rightarrow> Some s))"

section \<open>Strings and clock times\<close>

text \<open>The decimal digit \<open>d\<close> (below ten) as a character.\<close>

definition digit_char :: "nat \<Rightarrow> char" where
  "digit_char d = ''0123456789'' ! d"

text \<open>\<open>String(n)\<close> for a non-negative integer: its decimal digits.\<close>

fun String_nat :: "nat \<Rightarrow> string" where
  "String_nat n =
     (if n < 10 then [digit_char n] else String_nat (n div 10) @ [digit_char (n mod 10)])"

declare String_nat.simps [simp del]

text \<open>\<open>s.padStart(2, '0')\<close>.\<close>

definition padStart2 :: "string \<Rightarrow> string" where
  "padStart2 s = replicate (2 - length s) (CHR ''0'') @ s"

text \<open>
  The relational operators on two strings compare code units from the left; a proper prefix
  is smaller. \<open>a >= b\<close> is evaluated as the negation of \<open>a < b\<close>.
\<close>

fun js_str_lt :: "string \<Rightarrow> string \<Rightarrow> bool" where
  "js_str_lt [] [] = False"
| "js_str_lt [] (y # ys) = True"
| "js_str_lt (x # xs) [] = False"
| "js_str_lt (x # xs) (y # ys) =
     ((of_char x :: nat) < of_char y \<or> (x = y \<and> js_str_lt xs ys))"

definition js_str_ge :: "string \<Rightarrow> string \<Rightarrow> bool" where
  "js_str_ge a b = (\<not> js_str_lt a b)"

text \<open>\<open>x || d\<close> on a string that may be missing: \<open>null\<close> and the empty string are falsy.\<close>

definition or_str :: "string option \<Rightarrow> string \<Rightarrow> string" where
  "or_str x d = (case x of None \<Rightarrow> d | Some v \<Rightarrow> if v = [] then d else v)"

text \<open>\<open>x || d\<close> on a number that may be missing: \<open>null\<close> and \<open>0\<close> are falsy.\<close>

definition or_num :: "real option \<Rightarrow> real \<Rightarrow> real" where
  "or_num x d = (case x of None \<Rightarrow> d | Some v \<Rightarrow> if v = 0 then d else v)"

text \<open>\<open>s.split(sep)\<close> for a one-character separator.\<close>

fun split_from :: "char \<Rightarrow> string \<Rightarrow> string \<Rightarrow> string list" where
  "split_from sep cur [] = [cur]"
| "split_from sep cur (c # cs) =
     (if c = sep then cur # split_from sep [] cs else split_from sep (cur @ [c]) cs)"

definition split :: "char \<Rightarrow> string \<Rightarrow> string list" where
  "split sep s = split_from sep [] s"

text \<open>
  \<open>Number(s)\<close> on the fragment the clock strings live in: a non-empty string of decimal
  digits yields its value. Every other string is outside the modelled fragment (\<open>None\<close>);
  no theorem below speaks about it.
\<close>

definition digit_val :: "char \<Rightarrow> nat option" where
  "digit_val c =
     (let k = (of_char c :: nat) in if 48 \<le> k \<and> k \<le> 57 then Some (k - 48) else None)"

fun digits_val :: "nat \<Rightarrow> string \<Rightarrow> nat option" where
  "digits_val acc [] = Some acc"
| "digits_val acc (c # cs) =
     (case digit_val c of None \<Rightarrow> None | Some d \<Rightarrow> digits_val (10 * acc + d) cs)"

definition Number_str :: "string \<Rightarrow> int option" where
  "Number_str s = (if s = [] then None else map_option int (digits_val 0 s))"

text \<open>
  \<open>const [h, m] = str.split(':').map(Number)\<close> followed by \<open>h * 60 + m\<close>: the minutes since
  midnight that a clock string denotes.
\<close>

definition totalMinutes :: "string \<Rightarrow> int option" where
  "totalMinutes str =
     (case map Number_str (split (CHR '':'') str) of
        Some h # Some m # _ \<Rightarrow> Some (h * 60 + m)
      | _ \<Rightarrow> None)"

text \<open>The template string \<open>`${String(hours).padStart(2,'0')}:${String(minutes).padStart(2,'0')}`\<close>.\<close>

definition hhmm :: "nat \<Rightarrow> nat \<Rightarrow> string" where
  "hhmm h m = padStart2 (String_nat h) @ '':'' @ padStart2 (String_nat m)"

definition currentTime :: "clock \<Rightarrow> string" where
  "currentTime now = hhmm (getHours now) (getMinutes now)"

definition currentTotalMinutes :: "clock \<Rightarrow> int" where
  "currentTotalMinutes now = int (getHours now) * 60 + int (getMinutes now)"

section \<open>Tariff resolver\<close>

text \<open>\<open>getCurrentTariff(season)\<close> of \<open>device.js\<close>.\<close>

definition getCurrentTariff :: "season option \<Rightarrow> clock \<Rightarrow> tariff" where
  "getCurrentTariff season now =
     (case season of
        None \<Rightarrow> Day
      | Some s \<Rightarrow>
          if js_str_ge (currentTime now) (or_str (dayStart s) ''06:00'') \<and>
             js_str_lt (currentTime now) (or_str (dayEnd s) ''22:00'')
          then Day else Night)"

text \<open>\<open>getCurrentSeason()\<close> and \<open>getCurrentTariff()\<close> of \<open>app.js\<close>.\<close>

definition app_getCurrentSeason :: "settings \<Rightarrow> clock \<Rightarrow> season option" where
  "app_getCurrentSeason st now =
     (let month = getMonth now + 1;
          dayOfMonth = getDate now;
          ss = (case seasons st of None \<Rightarrow> [] | Some l \<Rightarrow> l)
      in case find (app_isDateInSeason month dayOfMonth) ss of
           Some s \<Rightarrow> Some s
         | None \<Rightarrow> (case ss of [] \<Rightarrow> None | s # _ \<Rightarrow> Some s))"

definition app_getCurrentTariff :: "settings \<Rightarrow> clock \<Rightarrow> tariff" where
  "app_getCurrentTariff st now =
     (case app_getCurrentSeason st now of
        None \<Rightarrow> Day
      | Some s \<Rightarrow>
          (let dayStart' = or_str (dayStart s) ''06:00'';
               dayEnd' = or_str (dayEnd s) ''22:00''
           in if js_str_ge (currentTime now) dayStart' \<and> js_str_lt (currentTime now) dayEnd'
              then Day else Night))"

text \<open>\<open>getCurrentRate(tariff)\<close> of \<open>device.js\<close>.\<close>

definition getCurrentRate :: "settings \<Rightarrow> tariff \<Rightarrow> real" where
  "getCurrentRate st tariff =
     (if tariff = Day then or_num (dayRate st) 0.12 else or_num (nightRate st) 0.06)"

text \<open>\<open>getCurrentRate()\<close> of \<open>app.js\<close>.\<close>

definition app_getCurrentRate :: "settings \<Rightarrow> clock \<Rightarrow> real" where
  "app_getCurrentRate st now =
     (if app_getCurrentTariff st now = Day
      then or_num (dayRate st) 0.12 else or_num (nightRate st) 0.06)"

text \<open>
  \<open>getMinutesUntilChange(season, currentTariff)\<close>. The result is \<open>None\<close> only when one of the
  two clock strings is outside the fragment of \<open>Number_str\<close>.
\<close>

definition getMinutesUntilChange :: "season option \<Rightarrow> tariff \<Rightarrow> clock \<Rightarrow> int option" where
  "getMinutesUntilChange season currentTariff now =
     (case season of
        None \<Rightarrow> Some 0
      | Some s \<Rightarrow>
          (case (totalMinutes (or_str (dayStart s) ''06:00''),
                 totalMinutes (or_str (dayEnd s) ''22:00'')) of
             (Some dayStartTotalMinutes, Some dayEndTotalMinutes) \<Rightarrow>
               if currentTariff = Day
               then Some (dayEndTotalMinutes - currentTotalMinutes now)
               else if currentTotalMinutes now \<ge> dayEndTotalMinutes
                    then Some ((24 * 60 - currentTotalMinutes now) + dayStartTotalMinutes)
                    else Some (dayStartTotalMinutes - currentTotalMinutes now)
           | _ \<Rightarrow> None))"

section \<open>Settings endpoints\<close>

text \<open>
  The body of \<open>PUT /settings\<close>: each field is either absent (\<open>undefined\<close>, here \<open>None\<close>) or
  carries a value.
\<close>

record body =
  body_currency :: "string option"
  body_dayRate :: "real option"
  body_nightRate :: "real option"
  body_seasons :: "season list option"

record settings_json =
  json_currency :: string
  json_dayRate :: real
  json_nightRate :: real
  json_seasons :: "season list"

definition getSettings :: "settings \<Rightarrow> settings_json" where
  "getSettings st =
     \<lparr> json_currency = or_str (currency st) ''EUR'',
       json_dayRate = or_num (dayRate st) 0.12,
       json_nightRate = or_num (nightRate st) 0.06,
       json_seasons = (case seasons st of None \<Rightarrow> [] | Some l \<Rightarrow> l) \<rparr>"

text \<open>\<open>putSettings\<close> returns the new store and the \<open>success\<close> field of its reply.\<close>

definition putSettings :: "settings \<Rightarrow> body \<Rightarrow> settings \<times> bool" where
  "putSettings st b =
     (let st1 = (case body_currency b of None \<Rightarrow> st | Some v \<Rightarrow> st\<lparr>currency := Some v\<rparr>);
          st2 = (case body_dayRate b of None \<Rightarrow> st1 | Some v \<Rightarrow> st1\<lparr>dayRate := Some v\<rparr>);
          st3 = (case body_nightRate b of None \<Rightarrow> st2 | Some v \<Rightarrow> st2\<lparr>nightRate := Some v\<rparr>);
          st4 = (case body_seasons b of None \<Rightarrow> st3 | Some v \<Rightarrow> st3\<lparr>seasons := Some v\<rparr>)
      in (st4, True))"

section \<open>Application state and history buffer\<close>

text \<open>One entry of \<open>app.powerDevices\<close> together with its key.\<close>

record powerDevice =
  dev_id :: string
  dev_name :: string
  power :: real

record sample =
  sample_t :: int
  sample_power :: real
  costH :: real
  costDay :: real

text \<open>
  The fields of the app object that the meter reads and writes. \<open>powerDevices\<close> is \<open>None\<close>
  until \<open>initHomeyAPI\<close> has created the object; its entries are listed in insertion order.
  A trigger field is \<open>True\<close> when \<open>registerFlowCards\<close> has stored the card. The app object
  itself and its methods exist whenever a device runs, so the guards \<open>app &&\<close>,
  \<open>app.getPowerDevices\<close> and \<open>app.recordHistory\<close> of the source are always passed.
\<close>

record app_state =
  apiReady :: bool
  powerDevices :: "powerDevice list option"
  history :: "sample list"
  tariffChangedTrigger :: bool
  costThresholdTrigger :: bool
  dailyCostTrigger :: bool
  highPowerDeviceTrigger :: bool

text \<open>\<open>xs.slice(-n)\<close>: the last \<open>n\<close> entries, all of them when there are fewer.\<close>

definition slice_last :: "nat \<Rightarrow> 'a list \<Rightarrow> 'a list" where
  "slice_last n xs = drop (length xs - n) xs"

definition recordHistory :: "app_state \<Rightarrow> int \<Rightarrow> real \<Rightarrow> real \<Rightarrow> real \<Rightarrow> app_state" where
  "recordHistory app now_ms totalPower costPerHour costToday' =
     (let pushed = history app @
            [\<lparr> sample_t = now_ms, sample_power = totalPower,
               costH = costPerHour, costDay = costToday' \<rparr>];
          maxEntries = 1440
      in app\<lparr> history := (if length pushed > maxEntries
                           then slice_last maxEntries pushed else pushed) \<rparr>)"

text \<open>A run of calls of \<open>recordHistory\<close>, each with its four arguments.\<close>

definition mk_sample :: "int \<times> real \<times> real \<times> real \<Rightarrow> sample" where
  "mk_sample a =
     (case a of (now_ms, totalPower, costPerHour, costToday') \<Rightarrow>
        \<lparr> sample_t = now_ms, sample_power = totalPower,
          costH = costPerHour, costDay = costToday' \<rparr>)"

fun recordAll :: "app_state \<Rightarrow> (int \<times> real \<times> real \<times> real) list \<Rightarrow> app_state" where
  "recordAll app [] = app"
| "recordAll app ((now_ms, totalPower, costPerHour, costToday') # rest) =
     recordAll (recordHistory app now_ms totalPower costPerHour costToday') rest"

definition getPowerDevices :: "app_state \<Rightarrow> powerDevice list" where
  "getPowerDevices app = (case powerDevices app of None \<Rightarrow> [] | Some ds \<Rightarrow> ds)"

section \<open>The tariff meter device\<close>

record device_state =
  lastTariff :: "tariff option"
  tariffChangesToday :: nat
  lastResetDate :: dateString
  costToday :: real
  lastCostUpdate :: int
  devicePowers :: "powerDevice list"

text \<open>The payloads handed to the four trigger cards.\<close>

datatype event =
    TariffChanged (previous_tariff: tariff) (new_tariff: tariff) (rate: real)
  | CostThreshold (cost_per_hour: real) (total_power: real) (threshold: real)
  | DailyCost real real
  | HighPowerDevice string real real

definition getDevicesWithPower :: "app_state \<Rightarrow> powerDevice list" where
  "getDevicesWithPower app = (if apiReady app then getPowerDevices app else [])"

text \<open>
  \<open>trackTariffChanges(currentTariff, now)\<close>: the new device state and the events triggered.
\<close>

definition trackTariffChanges ::
  "settings \<Rightarrow> app_state \<Rightarrow> device_state \<Rightarrow> tariff \<Rightarrow> clock \<Rightarrow> device_state \<times> event list" where
  "trackTariffChanges st app s currentTariff now =
     (let todayString = toDateString now;
          s1 = (if lastResetDate s \<noteq> todayString
                then s\<lparr> tariffChangesToday := 0, lastResetDate := todayString \<rparr> else s)
      in case lastTariff s1 of
           None \<Rightarrow> (s1\<lparr> lastTariff := Some currentTariff \<rparr>, [])
         | Some previous \<Rightarrow>
             if previous \<noteq> currentTariff
             then (s1\<lparr> tariffChangesToday := tariffChangesToday s1 + 1,
                       lastTariff := Some currentTariff \<rparr>,
                   if tariffChangedTrigger app
                   then [TariffChanged previous currentTariff (getCurrentRate st currentTariff)]
                   else [])
             else (s1\<lparr> lastTariff := Some currentTariff \<rparr>, []))"

text \<open>
  \<open>updateTariffValues()\<close>: of its effects only the call of \<open>trackTariffChanges\<close> touches the
  device fields; the capability writes are left out.
\<close>

definition updateTariffValues ::
  "settings \<Rightarrow> app_state \<Rightarrow> device_state \<Rightarrow> clock \<Rightarrow> device_state \<times> event list" where
  "updateTariffValues st app s now =
     (let season = getCurrentSeason st now;
          tariff = getCurrentTariff season now
      in trackTariffChanges st app s tariff now)"

text \<open>\<open>checkAlerts(costPerHour, costToday, currentRate)\<close>: the events triggered, in order.\<close>

definition checkAlerts ::
  "app_state \<Rightarrow> device_state \<Rightarrow> real \<Rightarrow> real \<Rightarrow> real \<Rightarrow> event list" where
  "checkAlerts app s costPerHour costToday' currentRate =
     (if costPerHour > 0 \<and> costThresholdTrigger app
      then [CostThreshold costPerHour
              (foldl (\<lambda>sum d. sum + power d) 0 (devicePowers s)) costPerHour]
      else []) @
     (if costToday' > 0 \<and> dailyCostTrigger app
      then [DailyCost costToday' costToday'] else []) @
     (if highPowerDeviceTrigger app
      then map (\<lambda>d. HighPowerDevice (dev_name d) (power d) ((power d / 1000) * currentRate))
             (devicePowers s)
      else [])"

text \<open>The loop of \<open>updateCostTracking\<close> that adds up the positive readings.\<close>

definition sumPositive :: "powerDevice list \<Rightarrow> real" where
  "sumPositive ds = foldl (\<lambda>totalPower d. if power d > 0 then totalPower + power d else totalPower) 0 ds"

text \<open>
  \<open>powerDevices.filter(d => d.power > 0).sort((a, b) => b.power - a.power)\<close>: a stable sort
  by descending power.
\<close>

definition positiveSorted :: "powerDevice list \<Rightarrow> powerDevice list" where
  "positiveSorted ds = sort_key (\<lambda>d. - power d) (filter (\<lambda>d. power d > 0) ds)"

definition timeDelta :: "device_state \<Rightarrow> clock \<Rightarrow> real" where
  "timeDelta s now = real_of_int (epoch_ms now - lastCostUpdate s) / 1000 / 3600"

text \<open>
  \<open>updateCostTracking()\<close>: the new device state, the new app state (history) and the events.
  All clock reads of one call are one reading; the capability writes and the monthly estimate,
  which only feeds a capability, are left out.
\<close>

definition updateCostTracking ::
  "settings \<Rightarrow> app_state \<Rightarrow> device_state \<Rightarrow> clock \<Rightarrow> device_state \<times> app_state \<times> event list" where
  "updateCostTracking st app s now =
     (let currentRate = getCurrentRate st (getCurrentTariff (getCurrentSeason st now) now);
          powerDevices' = getDevicesWithPower app;
          totalPower = sumPositive powerDevices';
          s1 = s\<lparr> devicePowers := positiveSorted powerDevices' \<rparr>;
          costIncrement = (totalPower / 1000) * timeDelta s now * currentRate;
          todayString = toDateString now;
          s2 = (if lastResetDate s1 \<noteq> todayString
                then s1\<lparr> costToday := 0, lastResetDate := todayString \<rparr> else s1);
          s3 = s2\<lparr> costToday := costToday s2 + costIncrement, lastCostUpdate := epoch_ms now \<rparr>;
          costPerHour = (totalPower / 1000) * currentRate;
          app1 = recordHistory app (epoch_ms now) totalPower costPerHour (costToday s3)
      in (s3, app1, checkAlerts app1 s3 costPerHour (costToday s3) currentRate))"

text \<open>Successive calls of \<open>updateCostTracking\<close>, one per clock reading, events dropped.\<close>

fun trackAll ::
  "settings \<Rightarrow> app_state \<Rightarrow> device_state \<Rightarrow> clock list \<Rightarrow> device_state \<times> app_state" where
  "trackAll st app s [] = (s, app)"
| "trackAll st app s (now # later) =
     (case updateCostTracking st app s now of
        (s', app', ev) \<Rightarrow> trackAll st app' s' later)"

text \<open>
  The body of the one-minute interval of \<open>onInit\<close>: \<open>updateTariffValues\<close>, then
  \<open>updateCostTracking\<close>, each with its own clock reading.
\<close>

definition tick ::
  "settings \<Rightarrow> app_state \<Rightarrow> device_state \<Rightarrow> clock \<Rightarrow> clock \<Rightarrow>
     device_state \<times> app_state \<times> event list" where
  "tick st app s nowT nowC =
     (case updateTariffValues st app s nowT of
        (s1, ev1) \<Rightarrow>
          (case updateCostTracking st app s1 nowC of
             (s2, app2, ev2) \<Rightarrow> (s2, app2, ev1 @ ev2)))"

text \<open>
  The fields \<open>onInit\<close> sets, followed by its first \<open>updateTariffValues\<close>. The delayed first
  cost tracking (ten seconds later, only when the API is ready) is one more call of
  \<open>updateCostTracking\<close>.
\<close>

definition onInit :: "settings \<Rightarrow> app_state \<Rightarrow> clock \<Rightarrow> device_state \<times> event list" where
  "onInit st app now =
     updateTariffValues st app
       \<lparr> lastTariff = None, tariffChangesToday = 0, lastResetDate = toDateString now,
         costToday = 0, lastCostUpdate = epoch_ms now, devicePowers = [] \<rparr> now"

section \<open>Quantities the claims speak about\<close>

text \<open>
  The total power of a tick in the specification's words: the sum of the readings of the
  device snapshot that are strictly greater than zero.
\<close>

definition snapshotPower :: "app_state \<Rightarrow> real" where
  "snapshotPower app =
     sum_list (map power (filter (\<lambda>d. power d > 0) (getDevicesWithPower app)))"

text \<open>The rate resolved at a clock reading: season, then tariff, then rate.\<close>

definition rateAt :: "settings \<Rightarrow> clock \<Rightarrow> real" where
  "rateAt st now = getCurrentRate st (getCurrentTariff (getCurrentSeason st now) now)"

text \<open>A clock reading moved to another time of the same day.\<close>

definition atTime :: "clock \<Rightarrow> nat \<Rightarrow> nat \<Rightarrow> clock" where
  "atTime now h m = now\<lparr> getHours := h, getMinutes := m \<rparr>"

section \<open>Concrete configurations\<close>

text \<open>The settings that \<open>initializeSettings\<close> stores on first start.\<close>

definition default_settings :: settings where
  "default_settings =
     \<lparr> currency = Some ''EUR'', dayRate = Some 0.12, nightRate = Some 0.06,
       seasons = Some [winter, summer] \<rparr>"

definition zero_rates :: settings where
  "zero_rates =
     \<lparr> currency = Some ''EUR'', dayRate = Some 0, nightRate = Some 0,
       seasons = Some [winter, summer] \<rparr>"

text \<open>An app with all four cards registered and one 2000 W device.\<close>

definition heater_app :: app_state where
  "heater_app =
     \<lparr> apiReady = True,
       powerDevices = Some [\<lparr> dev_id = ''a1'', dev_name = ''Heater'', power = 2000 \<rparr>],
       history = [],
       tariffChangedTrigger = True, costThresholdTrigger = True,
       dailyCostTrigger = True, highPowerDeviceTrigger = True \<rparr>"

text \<open>The same with a feeding-in device (negative reading) and an idle one beside the heater.\<close>

definition mixed_app :: app_state where
  "mixed_app =
     \<lparr> apiReady = True,
       powerDevices = Some [\<lparr> dev_id = ''b1'', dev_name = ''Solar'', power = - 500 \<rparr>,
                            \<lparr> dev_id = ''a1'', dev_name = ''Heater'', power = 2000 \<rparr>,
                            \<lparr> dev_id = ''c1'', dev_name = ''Lamp'', power = 0 \<rparr>],
       history = [],
       tariffChangedTrigger = True, costThresholdTrigger = True,
       dailyCostTrigger = True, highPowerDeviceTrigger = True \<rparr>"

text \<open>Clock readings around midnight between 2 and 3 November 2026, one minute apart.\<close>

definition nov2_2358 :: clock where
  "nov2_2358 = \<lparr> epoch_ms = 1793663910000, getFullYear = 2026, getMonth = 10, getDate = 2,
                 getHours = 23, getMinutes = 58 \<rparr>"

definition nov2_2359 :: clock where
  "nov2_2359 = \<lparr> epoch_ms = 1793663970000, getFullYear = 2026, getMonth = 10, getDate = 2,
                 getHours = 23, getMinutes = 59 \<rparr>"

definition nov3_0000 :: clock where
  "nov3_0000 = \<lparr> epoch_ms = 1793664030000, getFullYear = 2026, getMonth = 10, getDate = 3,
                 getHours = 0, getMinutes = 0 \<rparr>"

text \<open>
  Two readings 200 ms apart, one on each side of that midnight, and one a minute later.
\<close>

definition nov2_235959 :: clock where
  "nov2_235959 = \<lparr> epoch_ms = 1793663999900, getFullYear = 2026, getMonth = 10, getDate = 2,
                   getHours = 23, getMinutes = 59 \<rparr>"

definition nov3_000000 :: clock where
  "nov3_000000 = \<lparr> epoch_ms = 1793664000100, getFullYear = 2026, getMonth = 10, getDate = 3,
                   getHours = 0, getMinutes = 0 \<rparr>"

definition nov3_0001 :: clock where
  "nov3_0001 = \<lparr> epoch_ms = 1793664060000, getFullYear = 2026, getMonth = 10, getDate = 3,
                 getHours = 0, getMinutes = 1 \<rparr>"

text \<open>Readings at 10:00, 10:30 and 11:00 in the day window of 3 November 2026.\<close>

definition nov3_1000 :: clock where
  "nov3_1000 = \<lparr> epoch_ms = 1793700000000, getFullYear = 2026, getMonth = 10, getDate = 3,
                 getHours = 10, getMinutes = 0 \<rparr>"

definition nov3_1030 :: clock where
  "nov3_1030 = \<lparr> epoch_ms = 1793701800000, getFullYear = 2026, getMonth = 10, getDate = 3,
                 getHours = 10, getMinutes = 30 \<rparr>"

definition nov3_1100 :: clock where
  "nov3_1100 = \<lparr> epoch_ms = 1793703600000, getFullYear = 2026, getMonth = 10, getDate = 3,
                 getHours = 11, getMinutes = 0 \<rparr>"

text \<open>A season whose day window ends before it starts; nothing in the source rejects it.\<close>

definition reversed_season :: season where
  "reversed_season =
     \<lparr> name = ''Reversed'', startMonth = 1, startDay = 1, endMonth = 12, endDay = 31,
       dayStart = Some ''22:00'', dayEnd = Some ''06:00'' \<rparr>"

text \<open>1441 calls of \<open>recordHistory\<close>, one per minute.\<close>

definition minute_calls :: "(int \<times> real \<times> real \<times> real) list" where
  "minute_calls = map (\<lambda>i. (60000 * int i, 2000, 0.24, 0)) [0 ..< 1441]"

text \<open>
  Device states: one at 23:58:59.9 on 2 November after two tariff changes of that day, one at
  10:00 on 3 November.
\<close>

definition evening_state :: device_state where
  "evening_state =
     \<lparr> lastTariff = Some Night, tariffChangesToday = 2, lastResetDate = (2026, 10, 2),
       costToday = 3, lastCostUpdate = 1793663939900, devicePowers = [] \<rparr>"

definition morning_state :: device_state where
  "morning_state =
     \<lparr> lastTariff = Some Day, tariffChangesToday = 1, lastResetDate = (2026, 10, 3),
       costToday = 1, lastCostUpdate = 1793700000000, devicePowers = [] \<rparr>"

section \<open>Season membership\<close>

text \<open>
  Claim C2. For a season whose start month is greater than its end month, a date belongs to
  the season exactly when it is lexicographically at or after the start date or at or before
  the end date; this holds for both copies of the predicate. For the season 1 November to
  31 March, 25 December and 31 March belong to it, 4 July and 1 April do not.
\<close>

theorem isDateInSeason_wrapping:
  assumes "startMonth s > endMonth s"
  shows "isDateInSeason m d s =
           (pair_le (startMonth s, startDay s) (m, d) \<or> pair_le (m, d) (endMonth s, endDay s)) \<and>
         app_isDateInSeason m d s =
           (pair_le (startMonth s, startDay s) (m, d) \<or> pair_le (m, d) (endMonth s, endDay s)) \<and>
         isDateInSeason 12 25 winter \<and> isDateInSeason 3 31 winter \<and>
         \<not> isDateInSeason 7 4 winter \<and> \<not> isDateInSeason 4 1 winter \<and>
         app_isDateInSeason 12 25 winter \<and> app_isDateInSeason 3 31 winter \<and>
         \<not> app_isDateInSeason 7 4 winter \<and> \<not> app_isDateInSeason 4 1 winter"
  using assms
  by (auto simp: isDateInSeason_def app_isDateInSeason_def pair_le_def winter_def)

theorem isDateInSeason_wrapping_witness:
  "startMonth winter > endMonth winter \<and>
   isDateInSeason 12 25 winter =
     (pair_le (startMonth winter, startDay winter) (12, 25) \<or>
      pair_le (12, 25) (endMonth winter, endDay winter)) \<and>
   isDateInSeason 12 25 winter \<and> \<not> app_isDateInSeason 7 4 winter"
proof -
  have h: "startMonth winter > endMonth winter" by (simp add: winter_def)
  show ?thesis
    using h isDateInSeason_wrapping [OF h, of 12 25]
    by blast
qed

section \<open>Settings endpoints: partial update and fallback\<close>

text \<open>
  Claim C9. A settings update writes exactly the fields that are present in the request
  body: a present field replaces the stored value, an absent field leaves the stored value
  as it was, and the reply reports success whichever fields are present.
\<close>

theorem putSettings_frame:
  "currency (fst (putSettings st b)) =
     (case body_currency b of None \<Rightarrow> currency st | Some v \<Rightarrow> Some v) \<and>
   dayRate (fst (putSettings st b)) =
     (case body_dayRate b of None \<Rightarrow> dayRate st | Some v \<Rightarrow> Some v) \<and>
   nightRate (fst (putSettings st b)) =
     (case body_nightRate b of None \<Rightarrow> nightRate st | Some v \<Rightarrow> Some v) \<and>
   seasons (fst (putSettings st b)) =
     (case body_seasons b of None \<Rightarrow> seasons st | Some v \<Rightarrow> Some v) \<and>
   snd (putSettings st b) = True"
  by (simp add: putSettings_def Let_def split: option.splits)

theorem putSettings_frame_witness:
  "fst (putSettings default_settings
          \<lparr> body_currency = None, body_dayRate = Some 0.2,
            body_nightRate = None, body_seasons = None \<rparr>) =
     default_settings\<lparr> dayRate := Some 0.2 \<rparr> \<and>
   snd (putSettings default_settings
          \<lparr> body_currency = None, body_dayRate = Some 0.2,
            body_nightRate = None, body_seasons = None \<rparr>)"
  using putSettings_frame [of default_settings
          "\<lparr> body_currency = None, body_dayRate = Some 0.2,
             body_nightRate = None, body_seasons = None \<rparr>"]
  by (simp add: default_settings_def putSettings_def)

text \<open>
  Claim C10. A stored rate of 0 is not returned: for a stored day rate 0 the rate resolver
  and the settings read endpoint both give 0.12, for a stored night rate 0 both give 0.06.
  The same holds right after a settings update that writes the rate 0, so a zero rate
  cannot be configured.
\<close>

theorem zero_rate_falls_back:
  "(dayRate st = Some 0 \<longrightarrow>
      getCurrentRate st Day = 0.12 \<and> json_dayRate (getSettings st) = 0.12) \<and>
   (nightRate st = Some 0 \<longrightarrow>
      getCurrentRate st Night = 0.06 \<and> json_nightRate (getSettings st) = 0.06) \<and>
   (body_dayRate b = Some 0 \<longrightarrow>
      getCurrentRate (fst (putSettings st b)) Day = 0.12 \<and>
      json_dayRate (getSettings (fst (putSettings st b))) = 0.12) \<and>
   (body_nightRate b = Some 0 \<longrightarrow>
      getCurrentRate (fst (putSettings st b)) Night = 0.06 \<and>
      json_nightRate (getSettings (fst (putSettings st b))) = 0.06)"
  by (simp add: getCurrentRate_def getSettings_def or_num_def putSettings_def Let_def
      split: option.splits)

theorem zero_rate_falls_back_witness:
  "dayRate zero_rates = Some 0 \<and> nightRate zero_rates = Some 0 \<and>
   getCurrentRate zero_rates Day = 0.12 \<and> json_dayRate (getSettings zero_rates) = 0.12 \<and>
   getCurrentRate zero_rates Night = 0.06 \<and> json_nightRate (getSettings zero_rates) = 0.06 \<and>
   json_dayRate (getSettings (fst (putSettings default_settings
     \<lparr> body_currency = None, body_dayRate = Some 0,
       body_nightRate = Some 0, body_seasons = None \<rparr>))) = 0.12"
proof -
  have a: "dayRate zero_rates = Some 0" "nightRate zero_rates = Some 0"
    by (simp_all add: zero_rates_def)
  have b: "body_dayRate \<lparr> body_currency = None, body_dayRate = Some 0,
       body_nightRate = Some 0, body_seasons = None \<rparr> = Some 0"
    by simp
  from zero_rate_falls_back [of zero_rates]
       zero_rate_falls_back [of default_settings
         "\<lparr> body_currency = None, body_dayRate = Some 0,
            body_nightRate = Some 0, body_seasons = None \<rparr>"] a b
  show ?thesis by blast
qed

section \<open>History buffer\<close>

lemma length_recordHistory: "length (history (recordHistory app t p c d)) \<le> 1440"
  by (simp add: recordHistory_def Let_def slice_last_def)

lemma history_recordHistory:
  "history (recordHistory app t p c d) =
     slice_last 1440 (history app @ [mk_sample (t, p, c, d)])"
  by (simp add: recordHistory_def Let_def slice_last_def mk_sample_def)

lemma slice_last_append:
  "slice_last n (slice_last n xs @ ys) = slice_last n (xs @ ys)"
proof (cases "n \<le> length xs")
  case True
  then have a: "length (slice_last n xs @ ys) - n = length ys"
    by (simp add: slice_last_def)
  from True have b: "length (xs @ ys) - n = length ys + (length xs - n)"
    by simp
  from True have c: "length ys + (length xs - n) - length xs = length ys - n"
    by simp
  have "slice_last n (slice_last n xs @ ys) = drop (length ys) (drop (length xs - n) xs @ ys)"
    using a by (simp add: slice_last_def)
  also have "\<dots> = drop (length ys + (length xs - n)) xs @ drop (length ys - n) ys"
    using True by simp
  also have "\<dots> = slice_last n (xs @ ys)"
    unfolding slice_last_def b using c by simp
  finally show ?thesis .
next
  case False
  then show ?thesis by (simp add: slice_last_def)
qed

text \<open>After any run of calls the buffer holds the last 1440 samples ever pushed.\<close>

lemma history_recordAll:
  "length (history app) \<le> 1440 \<Longrightarrow>
   history (recordAll app calls) = slice_last 1440 (history app @ map mk_sample calls)"
proof (induction app calls rule: recordAll.induct)
  case (1 app)
  then show ?case by (simp add: slice_last_def)
next
  case (2 app now_ms totalPower costPerHour costToday' rest)
  let ?x = "mk_sample (now_ms, totalPower, costPerHour, costToday')"
  have "history (recordAll app ((now_ms, totalPower, costPerHour, costToday') # rest)) =
        slice_last 1440 (slice_last 1440 (history app @ [?x]) @ map mk_sample rest)"
    using 2(1) [OF length_recordHistory] by (simp add: history_recordHistory)
  also have "\<dots> = slice_last 1440 ((history app @ [?x]) @ map mk_sample rest)"
    by (rule slice_last_append)
  finally show ?case by simp
qed

lemma distinct_minute_calls: "distinct (map mk_sample minute_calls)"
  by (simp add: minute_calls_def distinct_map inj_on_def mk_sample_def)

text \<open>
  Claim C6. Starting from the empty buffer, after any sequence of appends the buffer has at
  most 1440 entries. After 1441 appends the buffer is the sequence of appended samples
  without its first element: entry \<open>i\<close> is the sample of append \<open>i + 2\<close>, unchanged and in
  append order, and the first sample (when no later sample equals it) is no longer there.
\<close>

theorem history_bounded_fifo:
  assumes "history app = []"
  shows "length (history (recordAll app calls)) \<le> 1440 \<and>
         (length calls = 1441 \<longrightarrow>
            history (recordAll app calls) = tl (map mk_sample calls) \<and>
            (\<forall>i < 1440. history (recordAll app calls) ! i = mk_sample (calls ! Suc i)) \<and>
            (distinct (map mk_sample calls) \<longrightarrow>
               mk_sample (hd calls) \<notin> set (history (recordAll app calls))))"
proof -
  have h: "history (recordAll app calls) = slice_last 1440 (map mk_sample calls)"
    using history_recordAll [of app calls] assms by simp
  have 1: "length (history (recordAll app calls)) \<le> 1440"
    unfolding h by (simp add: slice_last_def)
  have 2: "history (recordAll app calls) = tl (map mk_sample calls)" if "length calls = 1441"
    unfolding h using that by (simp add: slice_last_def drop_Suc)
  have 3: "history (recordAll app calls) ! i = mk_sample (calls ! Suc i)"
    if "length calls = 1441" "i < 1440" for i
    using 2 [OF that(1)] that by (simp add: nth_tl)
  have 4: "mk_sample (hd calls) \<notin> set (history (recordAll app calls))"
    if "length calls = 1441" "distinct (map mk_sample calls)"
  proof -
    from that(1) obtain c cs where "calls = c # cs" by (cases calls) auto
    with that(2) 2 [OF that(1)] show ?thesis by auto
  qed
  from 1 2 3 4 show ?thesis by blast
qed

theorem history_bounded_fifo_witness:
  "history heater_app = [] \<and> length minute_calls = 1441 \<and>
   distinct (map mk_sample minute_calls) \<and>
   length (history (recordAll heater_app minute_calls)) \<le> 1440 \<and>
   history (recordAll heater_app minute_calls) = tl (map mk_sample minute_calls) \<and>
   history (recordAll heater_app minute_calls) ! 0 = mk_sample (minute_calls ! Suc 0) \<and>
   mk_sample (hd minute_calls) \<notin> set (history (recordAll heater_app minute_calls))"
proof -
  have a: "history heater_app = []" by (simp add: heater_app_def)
  have b: "length minute_calls = 1441" by (simp add: minute_calls_def)
  have c: "(0::nat) < 1440" by simp
  show ?thesis
    using a b c distinct_minute_calls history_bounded_fifo [OF a, of minute_calls] by blast
qed

section \<open>Evaluation of concrete runs\<close>

lemmas eval_defs = default_settings_def heater_app_def mixed_app_def
  nov2_2358_def nov2_2359_def nov3_0000_def nov3_1000_def nov3_1030_def nov3_1100_def
  nov2_235959_def nov3_000000_def nov3_0001_def
  onInit_def tick_def updateTariffValues_def updateCostTracking_def trackTariffChanges_def
  getCurrentSeason_def getCurrentTariff_def getCurrentRate_def isDateInSeason_def
  winter_def summer_def toDateString_def currentTime_def hhmm_def padStart2_def String_nat.simps
  digit_char_def js_str_ge_def or_str_def or_num_def getDevicesWithPower_def getPowerDevices_def
  sumPositive_def positiveSorted_def timeDelta_def recordHistory_def slice_last_def checkAlerts_def
  snapshotPower_def rateAt_def Let_def


lemmas clock_eval = atTime_def nov3_0000_def nov3_1000_def reversed_season_def winter_def summer_def
  getCurrentTariff_def currentTime_def hhmm_def padStart2_def String_nat.simps digit_char_def
  js_str_ge_def or_str_def getMinutesUntilChange_def totalMinutes_def split_def Number_str_def
  digit_val_def currentTotalMinutes_def Let_def


section \<open>Cost accumulator\<close>

lemma foldl_plus_power:
  "foldl (\<lambda>sum d. sum + power d) a ds = a + sum_list (map power ds)"
  by (induction ds arbitrary: a) simp_all

lemma foldl_positive:
  "foldl (\<lambda>totalPower d. if power d > 0 then totalPower + power d else totalPower) a ds =
     a + sum_list (map power (filter (\<lambda>d. power d > 0) ds))"
  by (induction ds arbitrary: a) simp_all

lemma sumPositive_eq: "sumPositive ds = sum_list (map power (filter (\<lambda>d. power d > 0) ds))"
  by (simp add: sumPositive_def foldl_positive)

lemma sum_list_sort_key:
  fixes f :: "'a \<Rightarrow> real"
  shows "sum_list (map f (sort_key k xs)) = sum_list (map f xs)"
proof -
  have "sum_list (map f (sort_key k xs)) = sum_mset (image_mset f (mset (sort_key k xs)))"
    by (simp flip: sum_mset_sum_list)
  also have "\<dots> = sum_list (map f xs)"
    by (simp flip: sum_mset_sum_list)
  finally show ?thesis .
qed

lemma sum_positiveSorted: "sum_list (map power (positiveSorted ds)) = sumPositive ds"
  by (simp add: positiveSorted_def sum_list_sort_key sumPositive_eq)

lemma updateCostTracking_costToday:
  "costToday (fst (updateCostTracking st app s now)) =
     (if lastResetDate s \<noteq> toDateString now then 0 else costToday s) +
     (snapshotPower app / 1000) * (real_of_int (epoch_ms now - lastCostUpdate s) / 3600000) *
       rateAt st now"
  by (simp add: updateCostTracking_def Let_def snapshotPower_def rateAt_def sumPositive_eq
      timeDelta_def)

lemma updateCostTracking_lastCostUpdate:
  "lastCostUpdate (fst (updateCostTracking st app s now)) = epoch_ms now"
  by (simp add: updateCostTracking_def Let_def)

lemma updateCostTracking_lastResetDate:
  "lastResetDate (fst (updateCostTracking st app s now)) = toDateString now"
  by (simp add: updateCostTracking_def Let_def)

lemma updateCostTracking_snapshotPower:
  "snapshotPower (fst (snd (updateCostTracking st app s now))) = snapshotPower app"
  by (simp add: updateCostTracking_def Let_def snapshotPower_def recordHistory_def
      getDevicesWithPower_def getPowerDevices_def)

lemma span_add:
  fixes P :: real
  shows "P * ((a - b) / k) * r + P * ((e - a) / k) * r = P * ((e - b) / k) * r"
proof -
  have "(a - b) / k + (e - a) / k = (e - b) / k"
    by (simp flip: add_divide_distrib)
  then have "P * ((e - b) / k) * r = P * ((a - b) / k + (e - a) / k) * r"
    by simp
  also have "\<dots> = P * ((a - b) / k) * r + P * ((e - a) / k) * r"
    by (simp only: distrib_left distrib_right)
  finally show ?thesis by simp
qed

text \<open>
  Calls on the day of \<open>lastResetDate\<close> at one rate: the increments add up to the increment
  of the whole span, because every call stores its time as the start of the next interval.
\<close>

lemma trackAll_costToday:
  "\<forall>c \<in> set (now # later). toDateString c = lastResetDate s \<and> rateAt st c = r \<Longrightarrow>
   costToday (fst (trackAll st app s (now # later))) =
     costToday s +
     (snapshotPower app / 1000) *
       (real_of_int (epoch_ms (last (now # later)) - lastCostUpdate s) / 3600000) * r"
proof (induction later arbitrary: s app now)
  case Nil
  obtain s' app' ev where u: "updateCostTracking st app s now = (s', app', ev)"
    by (cases "updateCostTracking st app s now") auto
  from Nil have d: "toDateString now = lastResetDate s" "rateAt st now = r"
    by simp_all
  have "costToday s' =
          costToday s +
          (snapshotPower app / 1000) *
            (real_of_int (epoch_ms now - lastCostUpdate s) / 3600000) * r"
    using updateCostTracking_costToday [of st app s now] u d by simp
  then show ?case by (simp add: u)
next
  case (Cons nxt rest)
  obtain s' app' ev where u: "updateCostTracking st app s now = (s', app', ev)"
    by (cases "updateCostTracking st app s now") auto
  from Cons.prems have d: "toDateString now = lastResetDate s" "rateAt st now = r"
    by simp_all
  have c: "costToday s' =
             costToday s +
             (snapshotPower app / 1000) *
               (real_of_int (epoch_ms now - lastCostUpdate s) / 3600000) * r"
    using updateCostTracking_costToday [of st app s now] u d by simp
  have l: "lastCostUpdate s' = epoch_ms now"
    using updateCostTracking_lastCostUpdate [of st app s now] u by simp
  have t: "lastResetDate s' = lastResetDate s"
    using updateCostTracking_lastResetDate [of st app s now] u d by simp
  have p: "snapshotPower app' = snapshotPower app"
    using updateCostTracking_snapshotPower [of st app s now] u by simp
  have "\<forall>c \<in> set (nxt # rest). toDateString c = lastResetDate s' \<and> rateAt st c = r"
    using Cons.prems t by simp
  from Cons.IH [OF this, of app']
  have "costToday (fst (trackAll st app' s' (nxt # rest))) =
          costToday s' +
          (snapshotPower app / 1000) *
            (real_of_int (epoch_ms (last (nxt # rest)) - epoch_ms now) / 3600000) * r"
    unfolding p l .
  moreover have "trackAll st app s (now # nxt # rest) = trackAll st app' s' (nxt # rest)"
    by (simp add: u)
  moreover have "last (now # nxt # rest) = last (nxt # rest)"
    by simp
  ultimately have "costToday (fst (trackAll st app s (now # nxt # rest))) =
          costToday s +
          ((snapshotPower app / 1000) *
             ((real_of_int (epoch_ms now) - real_of_int (lastCostUpdate s)) / 3600000) * r +
           (snapshotPower app / 1000) *
             ((real_of_int (epoch_ms (last (now # nxt # rest))) - real_of_int (epoch_ms now)) /
              3600000) * r)"
    unfolding c by (simp only: of_int_diff add.assoc)
  then show ?case
    by (simp only: span_add of_int_diff)
qed

text \<open>
  Claim C5. One call of the cost tracking leaves \<open>costToday\<close> at its starting value (0 when
  the day is reset in this call, the old value otherwise) plus
  \<open>(totalPower / 1000) * dt_hours * currentRate\<close>: \<open>totalPower\<close> sums the readings that are
  strictly positive, \<open>dt_hours\<close> is the time in hours since \<open>lastCostUpdate\<close>, and the rate
  is the one resolved at the call. The call stores its own time in \<open>lastCostUpdate\<close>, so
  the interval of the next call starts where this one ends. Over any run of calls on the
  current day at one rate the amounts add up to \<open>(totalPower / 1000) * hours * rate\<close> for
  the hours between the update before the run and its last call; 2000 W over one hour at
  rate 0.12 add 0.24, in one call or in many. Numbers are exact reals here, so no rounding
  appears.
\<close>

theorem cost_increment:
  "costToday (fst (updateCostTracking st app s now)) =
     (if lastResetDate s \<noteq> toDateString now then 0 else costToday s) +
     (snapshotPower app / 1000) * (real_of_int (epoch_ms now - lastCostUpdate s) / 3600000) *
       rateAt st now \<and>
   lastCostUpdate (fst (updateCostTracking st app s now)) = epoch_ms now \<and>
   (snapshotPower app = 2000 \<and> epoch_ms now - lastCostUpdate s = 3600000 \<and>
    rateAt st now = 0.12 \<longrightarrow>
      costToday (fst (updateCostTracking st app s now)) =
        (if lastResetDate s \<noteq> toDateString now then 0 else costToday s) + 0.24) \<and>
   ((\<forall>c \<in> set (now # later). toDateString c = lastResetDate s \<and> rateAt st c = r) \<longrightarrow>
      costToday (fst (trackAll st app s (now # later))) =
        costToday s +
        (snapshotPower app / 1000) *
          (real_of_int (epoch_ms (last (now # later)) - lastCostUpdate s) / 3600000) * r) \<and>
   ((\<forall>c \<in> set (now # later). toDateString c = lastResetDate s \<and> rateAt st c = 0.12) \<and>
    snapshotPower app = 2000 \<and> epoch_ms (last (now # later)) - lastCostUpdate s = 3600000 \<longrightarrow>
      costToday (fst (trackAll st app s (now # later))) = costToday s + 0.24)"
proof (intro conjI impI)
  show "costToday (fst (updateCostTracking st app s now)) =
     (if lastResetDate s \<noteq> toDateString now then 0 else costToday s) +
     (snapshotPower app / 1000) * (real_of_int (epoch_ms now - lastCostUpdate s) / 3600000) *
       rateAt st now"
    by (rule updateCostTracking_costToday)
next
  show "lastCostUpdate (fst (updateCostTracking st app s now)) = epoch_ms now"
    by (rule updateCostTracking_lastCostUpdate)
next
  assume "snapshotPower app = 2000 \<and> epoch_ms now - lastCostUpdate s = 3600000 \<and>
    rateAt st now = 0.12"
  then show "costToday (fst (updateCostTracking st app s now)) =
        (if lastResetDate s \<noteq> toDateString now then 0 else costToday s) + 0.24"
    unfolding updateCostTracking_costToday [of st app s now] by simp
next
  assume "\<forall>c \<in> set (now # later). toDateString c = lastResetDate s \<and> rateAt st c = r"
  then show "costToday (fst (trackAll st app s (now # later))) =
        costToday s +
        (snapshotPower app / 1000) *
          (real_of_int (epoch_ms (last (now # later)) - lastCostUpdate s) / 3600000) * r"
    by (rule trackAll_costToday)
next
  assume a: "(\<forall>c \<in> set (now # later). toDateString c = lastResetDate s \<and> rateAt st c = 0.12) \<and>
    snapshotPower app = 2000 \<and> epoch_ms (last (now # later)) - lastCostUpdate s = 3600000"
  then have "\<forall>c \<in> set (now # later). toDateString c = lastResetDate s \<and> rateAt st c = 0.12"
    by blast
  from trackAll_costToday [OF this, of app] a
  show "costToday (fst (trackAll st app s (now # later))) = costToday s + 0.24"
    by simp
qed

theorem cost_increment_witness:
  "snapshotPower mixed_app = 2000 \<and>
   epoch_ms nov3_1100 - lastCostUpdate morning_state = 3600000 \<and>
   rateAt default_settings nov3_1030 = 0.12 \<and>
   rateAt default_settings nov3_1100 = 0.12 \<and>
   lastResetDate morning_state = toDateString nov3_1030 \<and>
   lastResetDate morning_state = toDateString nov3_1100 \<and>
   costToday morning_state = 1 \<and>
   costToday (fst (updateCostTracking default_settings mixed_app morning_state nov3_1100)) = 1.24 \<and>
   lastCostUpdate (fst (updateCostTracking default_settings mixed_app morning_state nov3_1030)) =
     epoch_ms nov3_1030 \<and>
   costToday (fst (trackAll default_settings mixed_app morning_state [nov3_1030, nov3_1100])) =
     1.24"
proof -
  have p: "snapshotPower mixed_app = 2000" by (simp add: eval_defs)
  have r: "rateAt default_settings nov3_1100 = 0.12" by (simp add: eval_defs)
  have r': "rateAt default_settings nov3_1030 = 0.12" by (simp add: eval_defs)
  have d: "epoch_ms nov3_1100 - lastCostUpdate morning_state = 3600000"
    by (simp add: nov3_1100_def morning_state_def)
  have l: "lastResetDate morning_state = toDateString nov3_1100"
    by (simp add: nov3_1100_def morning_state_def toDateString_def)
  have l': "lastResetDate morning_state = toDateString nov3_1030"
    by (simp add: nov3_1030_def morning_state_def toDateString_def)
  have c: "costToday morning_state = 1" by (simp add: morning_state_def)
  have q: "\<forall>c \<in> set [nov3_1030, nov3_1100].
             toDateString c = lastResetDate morning_state \<and> rateAt default_settings c = 0.12"
    using r r' l l' by simp
  have e: "epoch_ms (last [nov3_1030, nov3_1100]) - lastCostUpdate morning_state = 3600000"
    using d by simp
  note A = cost_increment [where st = default_settings and app = mixed_app and s = morning_state
                         and now = nov3_1100 and later = "[]" and r = "0.12"]
  note B = cost_increment [where st = default_settings and app = mixed_app and s = morning_state
                         and now = nov3_1030 and later = "[nov3_1100]" and r = "0.12"]
  from A p d r
  have "costToday (fst (updateCostTracking default_settings mixed_app morning_state nov3_1100)) =
          (if lastResetDate morning_state \<noteq> toDateString nov3_1100 then 0
           else costToday morning_state) + 0.24"
    by blast
  with l c
  have x1: "costToday (fst (updateCostTracking default_settings mixed_app morning_state nov3_1100)) =
          1.24"
    by simp
  from B
  have x2: "lastCostUpdate (fst (updateCostTracking default_settings mixed_app morning_state nov3_1030)) =
          epoch_ms nov3_1030"
    by blast
  from B q p e
  have "costToday (fst (trackAll default_settings mixed_app morning_state [nov3_1030, nov3_1100])) =
          costToday morning_state + 0.24"
    by blast
  with c
  have x3: "costToday (fst (trackAll default_settings mixed_app morning_state [nov3_1030, nov3_1100])) =
          1.24"
    by simp
  from p d r' r l' l c x1 x2 x3 show ?thesis by blast
qed

section \<open>Midnight reset of the daily cost\<close>

text \<open>
  What \<open>updateTariffValues\<close> leaves for the cost step: the reset date is already today's,
  while cost and time stamp are untouched.
\<close>

lemma updateTariffValues_fields:
  "lastResetDate (fst (updateTariffValues st app s now)) = toDateString now \<and>
   costToday (fst (updateTariffValues st app s now)) = costToday s \<and>
   lastCostUpdate (fst (updateTariffValues st app s now)) = lastCostUpdate s"
  by (simp add: updateTariffValues_def trackTariffChanges_def Let_def split: option.splits)

text \<open>After a tick the stored reset date is the date of the tick's last clock reading.\<close>

lemma tick_lastResetDate:
  "lastResetDate (fst (tick st app s nowT nowC)) = toDateString nowC"
  by (simp add: tick_def updateCostTracking_def Let_def split: prod.splits)

text \<open>
  A tick whose two clock readings fall on the same calendar day never resets the cost of the
  day, whatever \<open>lastResetDate\<close> was before: the tariff step has consumed the day change.
\<close>

lemma tick_keeps_cost:
  assumes "toDateString nowT = toDateString nowC"
  shows "costToday (fst (tick st app s nowT nowC)) =
           costToday s +
           (snapshotPower app / 1000) *
             (real_of_int (epoch_ms nowC - lastCostUpdate s) / 3600000) * rateAt st nowC"
proof -
  obtain s1 ev1 where u: "updateTariffValues st app s nowT = (s1, ev1)"
    by (cases "updateTariffValues st app s nowT")
  obtain s2 app2 ev2 where c: "updateCostTracking st app s1 nowC = (s2, app2, ev2)"
    by (cases "updateCostTracking st app s1 nowC") auto
  from updateTariffValues_fields [of st app s nowT] u assms
  have f: "lastResetDate s1 = toDateString nowC" "costToday s1 = costToday s"
          "lastCostUpdate s1 = lastCostUpdate s"
    by simp_all
  have "costToday (fst (tick st app s nowT nowC)) = costToday s2"
    by (simp add: tick_def u c)
  also have "\<dots> = costToday (fst (updateCostTracking st app s1 nowC))"
    by (simp add: c)
  finally show ?thesis
    unfolding updateCostTracking_costToday using f by simp
qed

text \<open>
  Claim C1, evaluated on a run that crosses midnight. The meter starts at 23:58 on
  2 November 2026 with one 2000 W device and the default settings; the interval fires at
  23:59 and at 00:00 on 3 November. Before the second tick \<open>lastResetDate\<close> is still
  2 November and \<open>costToday\<close> is 0.002; the increment of the first tick of the new day is
  0.002; after that tick \<open>costToday\<close> is 0.004, the sum of both, and \<open>lastResetDate\<close> is
  3 November.
\<close>

theorem midnight_tick_keeps_cost:
  "(case onInit default_settings heater_app nov2_2358 of (s0, e0) \<Rightarrow>
    case tick default_settings heater_app s0 nov2_2359 nov2_2359 of (s1, app1, e1) \<Rightarrow>
    case tick default_settings app1 s1 nov3_0000 nov3_0000 of (s2, app2, e2) \<Rightarrow>
      lastResetDate s1 \<noteq> toDateString nov3_0000 \<and>
      costToday s1 = 0.002 \<and>
      (snapshotPower app1 / 1000) * timeDelta s1 nov3_0000 * rateAt default_settings nov3_0000
        = 0.002 \<and>
      costToday s2 = 0.004 \<and>
      lastResetDate s2 = toDateString nov3_0000)"
  by (simp add: eval_defs)

section \<open>Cost-per-hour alert\<close>

lemma filter_CostThreshold_map:
  "filter is_CostThreshold (map (\<lambda>d. HighPowerDevice (f d) (g d) (h d)) ds) = []"
  by (induction ds) simp_all

lemma checkAlerts_costThreshold:
  assumes "costThresholdTrigger app"
  shows "filter is_CostThreshold (checkAlerts app s costPerHour costToday' currentRate) =
           (if costPerHour > 0
            then [CostThreshold costPerHour (sum_list (map power (devicePowers s))) costPerHour]
            else [])"
  using assms by (simp add: checkAlerts_def foldl_plus_power filter_CostThreshold_map)

lemma costThresholdTrigger_recordHistory:
  "costThresholdTrigger (recordHistory app t p c d) = costThresholdTrigger app"
  by (simp add: recordHistory_def Let_def)

lemma updateCostTracking_events:
  "snd (snd (updateCostTracking st app s now)) =
     checkAlerts
       (recordHistory app (epoch_ms now) (snapshotPower app)
          (snapshotPower app / 1000 * rateAt st now)
          (costToday (fst (updateCostTracking st app s now))))
       (fst (updateCostTracking st app s now))
       (snapshotPower app / 1000 * rateAt st now)
       (costToday (fst (updateCostTracking st app s now)))
       (rateAt st now)"
  by (simp add: updateCostTracking_def Let_def snapshotPower_def rateAt_def sumPositive_eq)

lemma updateCostTracking_devicePowers:
  "devicePowers (fst (updateCostTracking st app s now)) =
     positiveSorted (getDevicesWithPower app)"
  by (simp add: updateCostTracking_def Let_def)

text \<open>
  Claim C8. With the cost-threshold card registered, the alert check emits exactly one
  cost-per-hour event when \<open>costPerHour > 0\<close> and none otherwise; the event carries
  \<open>costPerHour\<close>, the sum of the powers of the stored positive-power snapshot, and
  \<open>costPerHour\<close> again as its threshold. In a cost-tracking call that sum is the total
  power of the tick.
\<close>

theorem costThreshold_alert:
  assumes "costThresholdTrigger app"
  shows "filter is_CostThreshold (checkAlerts app s costPerHour costToday' currentRate) =
           (if costPerHour > 0
            then [CostThreshold costPerHour (sum_list (map power (devicePowers s))) costPerHour]
            else []) \<and>
         filter is_CostThreshold (snd (snd (updateCostTracking st app s now))) =
           (if snapshotPower app / 1000 * rateAt st now > 0
            then [CostThreshold (snapshotPower app / 1000 * rateAt st now) (snapshotPower app)
                    (snapshotPower app / 1000 * rateAt st now)]
            else [])"
proof
  show "filter is_CostThreshold (checkAlerts app s costPerHour costToday' currentRate) =
           (if costPerHour > 0
            then [CostThreshold costPerHour (sum_list (map power (devicePowers s))) costPerHour]
            else [])"
    using assms by (rule checkAlerts_costThreshold)
next
  have "sum_list (map power (devicePowers (fst (updateCostTracking st app s now)))) =
        snapshotPower app"
    by (simp add: updateCostTracking_devicePowers sum_positiveSorted sumPositive_eq
        snapshotPower_def)
  then show "filter is_CostThreshold (snd (snd (updateCostTracking st app s now))) =
           (if snapshotPower app / 1000 * rateAt st now > 0
            then [CostThreshold (snapshotPower app / 1000 * rateAt st now) (snapshotPower app)
                    (snapshotPower app / 1000 * rateAt st now)]
            else [])"
    unfolding updateCostTracking_events
    using assms
    by (simp add: checkAlerts_costThreshold costThresholdTrigger_recordHistory)
qed

theorem costThreshold_alert_witness:
  "costThresholdTrigger mixed_app \<and>
   snd (snd (updateCostTracking default_settings mixed_app morning_state nov3_1100)) =
     [CostThreshold 0.24 2000 0.24, DailyCost 1.24 1.24, HighPowerDevice ''Heater'' 2000 0.24] \<and>
   filter is_CostThreshold
     (snd (snd (updateCostTracking default_settings mixed_app morning_state nov3_1100))) =
     [CostThreshold 0.24 2000 0.24]"
proof -
  have t: "costThresholdTrigger mixed_app" by (simp add: mixed_app_def)
  have p: "snapshotPower mixed_app = 2000" by (simp add: eval_defs)
  have r: "rateAt default_settings nov3_1100 = 0.12" by (simp add: eval_defs)
  have e: "snd (snd (updateCostTracking default_settings mixed_app morning_state nov3_1100)) =
     [CostThreshold 0.24 2000 0.24, DailyCost 1.24 1.24, HighPowerDevice ''Heater'' 2000 0.24]"
    by (simp add: eval_defs morning_state_def)
  from costThreshold_alert [OF t, of morning_state 0 0 0 default_settings nov3_1100] t e
  show ?thesis unfolding p r by simp
qed

section \<open>Tariff-change trigger\<close>

text \<open>
  One call of \<open>trackTariffChanges\<close> with the tariff-changed card registered: when the
  previously observed tariff exists and differs from the newly resolved one, exactly one
  event with the previous tariff, the new tariff and the new tariff's rate is emitted and
  the counter of the day grows by one; when there is no previous tariff or it equals the new
  one, no event is emitted and the counter keeps its value. The counter starts from 0 only
  in a call whose date differs from the stored \<open>lastResetDate\<close>.
\<close>

lemma trackTariffChanges_edge:
  assumes "tariffChangedTrigger app"
  shows "(\<forall>prev. lastTariff s = Some prev \<and> prev \<noteq> cur \<longrightarrow>
            snd (trackTariffChanges st app s cur now) =
              [TariffChanged prev cur (getCurrentRate st cur)] \<and>
            tariffChangesToday (fst (trackTariffChanges st app s cur now)) =
              (if lastResetDate s \<noteq> toDateString now then 0 else tariffChangesToday s) + 1) \<and>
         (lastTariff s = None \<or> lastTariff s = Some cur \<longrightarrow>
            snd (trackTariffChanges st app s cur now) = [] \<and>
            tariffChangesToday (fst (trackTariffChanges st app s cur now)) =
              (if lastResetDate s \<noteq> toDateString now then 0 else tariffChangesToday s)) \<and>
         lastTariff (fst (trackTariffChanges st app s cur now)) = Some cur \<and>
         lastResetDate (fst (trackTariffChanges st app s cur now)) = toDateString now"
  using assms by (auto simp: trackTariffChanges_def Let_def split: option.splits)

lemma trackTariffChanges_edge_example:
  "tariffChangedTrigger heater_app \<and> lastTariff evening_state = Some Night \<and>
   lastResetDate evening_state \<noteq> toDateString nov3_1000 \<and>
   snd (trackTariffChanges default_settings heater_app evening_state Day nov3_1000) =
     [TariffChanged Night Day 0.12] \<and>
   tariffChangesToday
     (fst (trackTariffChanges default_settings heater_app evening_state Day nov3_1000)) = 1 \<and>
   snd (trackTariffChanges default_settings heater_app evening_state Night nov3_1000) = [] \<and>
   tariffChangesToday
     (fst (trackTariffChanges default_settings heater_app evening_state Night nov3_1000)) = 0"
proof -
  have t: "tariffChangedTrigger heater_app" by (simp add: heater_app_def)
  have l: "lastTariff evening_state = Some Night" by (simp add: evening_state_def)
  have d: "lastResetDate evening_state \<noteq> toDateString nov3_1000"
    by (simp add: evening_state_def nov3_1000_def toDateString_def)
  have r: "getCurrentRate default_settings Day = 0.12"
    by (simp add: getCurrentRate_def default_settings_def or_num_def)
  from trackTariffChanges_edge [OF t, of evening_state Day default_settings nov3_1000]
       trackTariffChanges_edge [OF t, of evening_state Night default_settings nov3_1000]
       t l d r
  show ?thesis by simp
qed

text \<open>
  Claim C7, evaluated on a tick that straddles midnight. The counter stands at 2 for
  2 November. In the tick that follows, \<open>updateTariffValues\<close> reads the clock at 23:59:59.9
  and \<open>updateCostTracking\<close> at 00:00:00.1: the tariff step still sees 2 November and keeps
  the counter, the cost step moves \<open>lastResetDate\<close> to 3 November. In the next tick, at
  00:01 on 3 November, \<open>lastResetDate\<close> is already that day, so the counter of the new day
  is still 2; no tariff change happens in either tick.
\<close>

theorem straddling_tick_keeps_counter:
  "(case tick default_settings heater_app evening_state nov2_235959 nov3_000000 of
      (s1, app1, e1) \<Rightarrow>
    case tick default_settings app1 s1 nov3_0001 nov3_0001 of (s2, app2, e2) \<Rightarrow>
      tariffChangesToday evening_state = 2 \<and>
      lastResetDate evening_state = toDateString nov2_235959 \<and>
      toDateString nov3_0001 \<noteq> lastResetDate evening_state \<and>
      tariffChangesToday s1 = 2 \<and>
      lastResetDate s1 = toDateString nov3_000000 \<and>
      filter is_TariffChanged (e1 @ e2) = [] \<and>
      lastResetDate s2 = toDateString nov3_0001 \<and>
      tariffChangesToday s2 = 2)"
  by (simp add: eval_defs evening_state_def)

section \<open>Clock strings\<close>

lemma digit_cases:
  assumes "d < (10::nat)"
  obtains "d = 0" | "d = 1" | "d = 2" | "d = 3" | "d = 4" | "d = 5" | "d = 6" | "d = 7" | "d = 8" | "d = 9"
  using assms by atomize_elim arith

lemma of_char_digit: "d < 10 \<Longrightarrow> (of_char (digit_char d) :: nat) = 48 + d"
  by (erule digit_cases) (simp_all add: digit_char_def)

lemma digit_char_eq_iff: "a < 10 \<Longrightarrow> b < 10 \<Longrightarrow> (digit_char a = digit_char b) = (a = b)"
  by (metis of_char_digit add_left_cancel)

lemma digit_char_not_colon: "d < 10 \<Longrightarrow> digit_char d \<noteq> CHR '':''"
  by (erule digit_cases) (simp_all add: digit_char_def)

lemma digit_val_digit_char: "d < 10 \<Longrightarrow> digit_val (digit_char d) = Some d"
  by (simp add: digit_val_def of_char_digit)

lemma pad2: 
  assumes "n < 100"
  shows "padStart2 (String_nat n) = [digit_char (n div 10), digit_char (n mod 10)]"
proof (cases "n < 10")
  case True
  then show ?thesis by (simp add: String_nat.simps [of n] padStart2_def digit_char_def)
next
  case False
  with assms have "n div 10 < 10" by simp
  with False show ?thesis
    by (simp add: String_nat.simps [of n] String_nat.simps [of "n div 10"] padStart2_def)
qed

lemma hhmm_chars:
  "h < 100 \<Longrightarrow> m < 100 \<Longrightarrow>
   hhmm h m = [digit_char (h div 10), digit_char (h mod 10), CHR '':'',
               digit_char (m div 10), digit_char (m mod 10)]"
  by (simp add: hhmm_def pad2)

lemma lex10:
  "ra < 10 \<Longrightarrow> rb < 10 \<Longrightarrow>
   ((qa::nat) < qb \<or> qa = qb \<and> (ra::nat) < rb) = (10 * qa + ra < 10 * qb + rb)"
  by arith

lemma two_digit_less:
  "((a::nat) div 10 < b div 10 \<or> a div 10 = b div 10 \<and> a mod 10 < b mod 10) = (a < b)"
  using lex10 [of "a mod 10" "b mod 10" "a div 10" "b div 10"] by simp

lemma two_digit_eq:
  "((a::nat) div 10 = b div 10 \<and> a mod 10 = b mod 10) = (a = b)"
  by (metis div_mult_mod_eq)

lemma js_str_lt_hhmm:
  assumes "h < 100" "m < 100" "h' < 100" "m' < 100"
  shows "js_str_lt (hhmm h m) (hhmm h' m') = (h < h' \<or> h = h' \<and> m < m')"
proof -
  have d: "h div 10 < 10" "h mod 10 < 10" "m div 10 < 10" "m mod 10 < 10"
          "h' div 10 < 10" "h' mod 10 < 10" "m' div 10 < 10" "m' mod 10 < 10"
    using assms by simp_all
  have "js_str_lt (hhmm h m) (hhmm h' m') =
        (h div 10 < h' div 10 \<or> h div 10 = h' div 10 \<and>
          (h mod 10 < h' mod 10 \<or> h mod 10 = h' mod 10 \<and>
            (m div 10 < m' div 10 \<or> m div 10 = m' div 10 \<and> m mod 10 < m' mod 10)))"
    using d by (simp add: hhmm_chars assms of_char_digit digit_char_eq_iff)
  also have "\<dots> = (h < h' \<or> h = h' \<and> m < m')"
    unfolding two_digit_less [of m m'] using two_digit_less [of h h'] two_digit_eq [of h h'] by blast
  finally show ?thesis .
qed

lemma minutes_less:
  "m < 60 \<Longrightarrow> m' < 60 \<Longrightarrow>
   ((h::nat) < h' \<or> h = h' \<and> (m::nat) < m') = (int h * 60 + int m < int h' * 60 + int m')"
  by arith

lemma split_hhmm:
  assumes "h < 100" "m < 100"
  shows "split (CHR '':'') (hhmm h m) =
           [[digit_char (h div 10), digit_char (h mod 10)],
            [digit_char (m div 10), digit_char (m mod 10)]]"
proof -
  have "h div 10 < 10" "h mod 10 < 10" "m div 10 < 10" "m mod 10 < 10"
    using assms by simp_all
  then show ?thesis
    by (simp add: hhmm_chars assms split_def digit_char_not_colon)
qed

lemma Number_two_digits:
  assumes "n < 100"
  shows "Number_str [digit_char (n div 10), digit_char (n mod 10)] = Some (int n)"
proof -
  have "n div 10 < 10" "n mod 10 < 10" using assms by simp_all
  then show ?thesis by (simp add: Number_str_def digit_val_digit_char)
qed

lemma totalMinutes_hhmm:
  "h < 100 \<Longrightarrow> m < 100 \<Longrightarrow> totalMinutes (hhmm h m) = Some (int h * 60 + int m)"
  by (simp add: totalMinutes_def split_hhmm Number_two_digits)

lemma hhmm_0600: "hhmm 6 0 = ''06:00''"
  by (simp add: hhmm_def padStart2_def String_nat.simps digit_char_def)

lemma hhmm_2200: "hhmm 22 0 = ''22:00''"
  by (simp add: hhmm_def padStart2_def String_nat.simps digit_char_def)

lemma or_str_dayStart:
  assumes "h < 100" "m < 100"
    and "x = Some (hhmm h m) \<or> x = None \<and> h = 6 \<and> m = 0"
  shows "or_str x ''06:00'' = hhmm h m"
  using assms(3)
proof
  assume "x = Some (hhmm h m)"
  then show ?thesis by (simp add: or_str_def hhmm_chars assms)
next
  assume "x = None \<and> h = 6 \<and> m = 0"
  then show ?thesis by (simp add: or_str_def hhmm_0600)
qed

lemma or_str_dayEnd:
  assumes "h < 100" "m < 100"
    and "x = Some (hhmm h m) \<or> x = None \<and> h = 22 \<and> m = 0"
  shows "or_str x ''22:00'' = hhmm h m"
  using assms(3)
proof
  assume "x = Some (hhmm h m)"
  then show ?thesis by (simp add: or_str_def hhmm_chars assms)
next
  assume "x = None \<and> h = 22 \<and> m = 0"
  then show ?thesis by (simp add: or_str_def hhmm_2200)
qed

lemma day_window:
  assumes "getHours now < 24" "getMinutes now < 60"
    and "h1 < 24" "m1 < 60" "h2 < 24" "m2 < 60"
  shows "(js_str_ge (currentTime now) (hhmm h1 m1) \<and> js_str_lt (currentTime now) (hhmm h2 m2)) =
         (int h1 * 60 + int m1 \<le> currentTotalMinutes now \<and>
          currentTotalMinutes now < int h2 * 60 + int m2)"
proof -
  have a: "js_str_lt (currentTime now) (hhmm h1 m1) =
           (currentTotalMinutes now < int h1 * 60 + int m1)"
    using assms
    by (simp add: currentTime_def currentTotalMinutes_def js_str_lt_hhmm minutes_less)
  have b: "js_str_lt (currentTime now) (hhmm h2 m2) =
           (currentTotalMinutes now < int h2 * 60 + int m2)"
    using assms
    by (simp add: currentTime_def currentTotalMinutes_def js_str_lt_hhmm minutes_less)
  show ?thesis unfolding js_str_ge_def a b by auto
qed

lemma getCurrentTariff_minutes:
  assumes "getHours now < 24" "getMinutes now < 60"
    and "h1 < 24" "m1 < 60" "h2 < 24" "m2 < 60"
    and "dayStart s = Some (hhmm h1 m1) \<or> dayStart s = None \<and> h1 = 6 \<and> m1 = 0"
    and "dayEnd s = Some (hhmm h2 m2) \<or> dayEnd s = None \<and> h2 = 22 \<and> m2 = 0"
  shows "getCurrentTariff (Some s) now =
           (if int h1 * 60 + int m1 \<le> currentTotalMinutes now \<and>
               currentTotalMinutes now < int h2 * 60 + int m2
            then Day else Night)"
proof -
  have ds: "or_str (dayStart s) ''06:00'' = hhmm h1 m1"
    using assms by (intro or_str_dayStart) simp_all
  have de: "or_str (dayEnd s) ''22:00'' = hhmm h2 m2"
    using assms by (intro or_str_dayEnd) simp_all
  show ?thesis
    unfolding getCurrentTariff_def option.case ds de
    using day_window [OF assms(1-6)] by simp
qed

lemma app_getCurrentTariff_minutes:
  assumes "getHours now < 24" "getMinutes now < 60"
    and "h1 < 24" "m1 < 60" "h2 < 24" "m2 < 60"
    and "dayStart s = Some (hhmm h1 m1) \<or> dayStart s = None \<and> h1 = 6 \<and> m1 = 0"
    and "dayEnd s = Some (hhmm h2 m2) \<or> dayEnd s = None \<and> h2 = 22 \<and> m2 = 0"
    and "app_getCurrentSeason st now = Some s"
  shows "app_getCurrentTariff st now =
           (if int h1 * 60 + int m1 \<le> currentTotalMinutes now \<and>
               currentTotalMinutes now < int h2 * 60 + int m2
            then Day else Night)"
proof -
  have ds: "or_str (dayStart s) ''06:00'' = hhmm h1 m1"
    using assms by (intro or_str_dayStart) simp_all
  have de: "or_str (dayEnd s) ''22:00'' = hhmm h2 m2"
    using assms by (intro or_str_dayEnd) simp_all
  show ?thesis
    unfolding app_getCurrentTariff_def assms(9) option.case ds de Let_def
    using day_window [OF assms(1-6)] by simp
qed

lemma getMinutesUntilChange_minutes:
  assumes "h1 < 24" "m1 < 60" "h2 < 24" "m2 < 60"
    and "dayStart s = Some (hhmm h1 m1) \<or> dayStart s = None \<and> h1 = 6 \<and> m1 = 0"
    and "dayEnd s = Some (hhmm h2 m2) \<or> dayEnd s = None \<and> h2 = 22 \<and> m2 = 0"
  shows "getMinutesUntilChange (Some s) currentTariff now =
           Some (if currentTariff = Day
                 then (int h2 * 60 + int m2) - currentTotalMinutes now
                 else if currentTotalMinutes now \<ge> int h2 * 60 + int m2
                      then (24 * 60 - currentTotalMinutes now) + (int h1 * 60 + int m1)
                      else (int h1 * 60 + int m1) - currentTotalMinutes now)"
proof -
  have ds: "or_str (dayStart s) ''06:00'' = hhmm h1 m1"
    using assms by (intro or_str_dayStart) simp_all
  have de: "or_str (dayEnd s) ''22:00'' = hhmm h2 m2"
    using assms by (intro or_str_dayEnd) simp_all
  show ?thesis
    unfolding getMinutesUntilChange_def option.case ds de
    using assms(1-4) by (simp add: totalMinutes_hhmm)
qed

lemma currentTotalMinutes_atTime: "currentTotalMinutes (atTime now h m) = int h * 60 + int m"
  by (simp add: currentTotalMinutes_def atTime_def)

lemma atTime_fields: "getHours (atTime now h m) = h" "getMinutes (atTime now h m) = m"
  by (simp_all add: atTime_def)

section \<open>Day window\<close>

text \<open>
  Claim C3, as the source has it. For zero-padded \<open>HH:MM\<close> strings (or the defaults 06:00
  and 22:00 for missing ones) the tariff is day exactly when the clock time is in
  \<open>[dayStart, dayEnd)\<close>, in both copies of the resolver. At exactly \<open>dayEnd\<close> it is night.
  When \<open>dayStart\<close> is earlier than \<open>dayEnd\<close>, it is day at exactly \<open>dayStart\<close> and one
  minute before \<open>dayEnd\<close>.
\<close>

theorem tariff_window:
  assumes "getHours now < 24" "getMinutes now < 60"
    and "h1 < 24" "m1 < 60" "h2 < 24" "m2 < 60"
    and "dayStart s = Some (hhmm h1 m1) \<or> dayStart s = None \<and> h1 = 6 \<and> m1 = 0"
    and "dayEnd s = Some (hhmm h2 m2) \<or> dayEnd s = None \<and> h2 = 22 \<and> m2 = 0"
  shows "getCurrentTariff (Some s) now =
           (if int h1 * 60 + int m1 \<le> currentTotalMinutes now \<and>
               currentTotalMinutes now < int h2 * 60 + int m2
            then Day else Night) \<and>
         (app_getCurrentSeason st now = Some s \<longrightarrow>
            app_getCurrentTariff st now =
              (if int h1 * 60 + int m1 \<le> currentTotalMinutes now \<and>
                  currentTotalMinutes now < int h2 * 60 + int m2
               then Day else Night)) \<and>
         getCurrentTariff (Some s) (atTime now h2 m2) = Night \<and>
         (h1 * 60 + m1 < h2 * 60 + m2 \<longrightarrow>
            getCurrentTariff (Some s) (atTime now h1 m1) = Day \<and>
            getCurrentTariff (Some s)
              (atTime now ((h2 * 60 + m2 - 1) div 60) ((h2 * 60 + m2 - 1) mod 60)) = Day)"
proof (intro conjI impI)
  show "getCurrentTariff (Some s) now =
           (if int h1 * 60 + int m1 \<le> currentTotalMinutes now \<and>
               currentTotalMinutes now < int h2 * 60 + int m2
            then Day else Night)"
    using assms by (rule getCurrentTariff_minutes)
next
  assume "app_getCurrentSeason st now = Some s"
  with assms show "app_getCurrentTariff st now =
              (if int h1 * 60 + int m1 \<le> currentTotalMinutes now \<and>
                  currentTotalMinutes now < int h2 * 60 + int m2
               then Day else Night)"
    by (rule app_getCurrentTariff_minutes)
next
  have "getHours (atTime now h2 m2) < 24" "getMinutes (atTime now h2 m2) < 60"
    using assms by (simp_all add: atTime_fields)
  from getCurrentTariff_minutes [OF this assms(3-8)]
  show "getCurrentTariff (Some s) (atTime now h2 m2) = Night"
    by (simp add: currentTotalMinutes_atTime)
next
  assume lt: "h1 * 60 + m1 < h2 * 60 + m2"
  have "getHours (atTime now h1 m1) < 24" "getMinutes (atTime now h1 m1) < 60"
    using assms by (simp_all add: atTime_fields)
  from getCurrentTariff_minutes [OF this assms(3-8)] lt
  show "getCurrentTariff (Some s) (atTime now h1 m1) = Day"
    by (simp add: currentTotalMinutes_atTime)
next
  assume lt: "h1 * 60 + m1 < h2 * 60 + m2"
  let ?e = "h2 * 60 + m2 - 1"
  have e: "?e < 24 * 60" using assms(5,6) by simp
  have "getHours (atTime now (?e div 60) (?e mod 60)) < 24"
       "getMinutes (atTime now (?e div 60) (?e mod 60)) < 60"
    using e by (simp_all add: atTime_fields less_mult_imp_div_less)
  from getCurrentTariff_minutes [OF this assms(3-8)]
  have "getCurrentTariff (Some s) (atTime now (?e div 60) (?e mod 60)) =
          (if int h1 * 60 + int m1 \<le> int (?e div 60) * 60 + int (?e mod 60) \<and>
              int (?e div 60) * 60 + int (?e mod 60) < int h2 * 60 + int m2
           then Day else Night)"
    by (simp add: currentTotalMinutes_atTime)
  moreover have "int (?e div 60) * 60 + int (?e mod 60) = int ?e"
    by (metis (no_types) div_mult_mod_eq of_nat_add of_nat_mult of_nat_numeral)
  ultimately show "getCurrentTariff (Some s) (atTime now (?e div 60) (?e mod 60)) = Day"
    using lt by (simp add: of_nat_diff)
qed

theorem tariff_window_witness:
  "getCurrentTariff (Some winter) nov3_1000 = Day \<and>
   getCurrentTariff (Some winter) (atTime nov3_1000 22 0) = Night \<and>
   getCurrentTariff (Some winter) (atTime nov3_1000 6 0) = Day \<and>
   getCurrentTariff (Some winter) (atTime nov3_1000 21 59) = Day"
proof -
  have a: "getHours nov3_1000 < 24" "getMinutes nov3_1000 < 60" by (simp_all add: nov3_1000_def)
  have b: "(6::nat) < 24" "(0::nat) < 60" "(22::nat) < 24" by simp_all
  have c: "dayStart winter = Some (hhmm 6 0) \<or> dayStart winter = None \<and> (6::nat) = 6 \<and> (0::nat) = 0"
    by (simp add: winter_def hhmm_0600)
  have d: "dayEnd winter = Some (hhmm 22 0) \<or> dayEnd winter = None \<and> (22::nat) = 22 \<and> (0::nat) = 0"
    by (simp add: winter_def hhmm_2200)
  have e: "(6::nat) * 60 + 0 < 22 * 60 + 0" by simp
  have f: "currentTotalMinutes nov3_1000 = 600" by (simp add: currentTotalMinutes_def nov3_1000_def)
  from tariff_window [OF a b(1,2,3,2) c d, of default_settings] e f
  show ?thesis by simp
qed

text \<open>
  Without that order the boundary statement fails: in a season with \<open>dayStart\<close> 22:00 and
  \<open>dayEnd\<close> 06:00 the window is empty and the tariff at exactly 22:00 is night.
\<close>

theorem tariff_at_dayStart_counterexample:
  "dayStart reversed_season = Some (hhmm 22 0) \<and> dayEnd reversed_season = Some (hhmm 6 0) \<and>
   getHours (atTime nov3_0000 22 0) = 22 \<and> getMinutes (atTime nov3_0000 22 0) = 0 \<and>
   getCurrentTariff (Some reversed_season) (atTime nov3_0000 22 0) \<noteq> Day"
  by (simp add: clock_eval)

section \<open>Minutes until the next change\<close>

text \<open>
  Claim C4, as the source has it. For a season whose \<open>dayStart\<close> is earlier than its
  \<open>dayEnd\<close> (zero-padded strings or the defaults) and a clock time of the day, the minutes
  until the next change, computed for the tariff resolved at that time, lie in
  \<open>[0, 1440)\<close>. One minute before \<open>dayEnd\<close> the tariff is day and the result is 1; one
  minute before \<open>dayStart\<close> the tariff is night and the result is 1.
\<close>

theorem minutesUntilChange_range:
  assumes "getHours now < 24" "getMinutes now < 60"
    and "h1 < 24" "m1 < 60" "h2 < 24" "m2 < 60"
    and "dayStart s = Some (hhmm h1 m1) \<or> dayStart s = None \<and> h1 = 6 \<and> m1 = 0"
    and "dayEnd s = Some (hhmm h2 m2) \<or> dayEnd s = None \<and> h2 = 22 \<and> m2 = 0"
    and "h1 * 60 + m1 < h2 * 60 + m2"
  shows "(\<exists>r. getMinutesUntilChange (Some s) (getCurrentTariff (Some s) now) now = Some r \<and>
              0 \<le> r \<and> r < 1440) \<and>
         getCurrentTariff (Some s)
           (atTime now ((h2 * 60 + m2 - 1) div 60) ((h2 * 60 + m2 - 1) mod 60)) = Day \<and>
         getMinutesUntilChange (Some s) Day
           (atTime now ((h2 * 60 + m2 - 1) div 60) ((h2 * 60 + m2 - 1) mod 60)) = Some 1 \<and>
         (0 < h1 * 60 + m1 \<longrightarrow>
            getCurrentTariff (Some s)
              (atTime now ((h1 * 60 + m1 - 1) div 60) ((h1 * 60 + m1 - 1) mod 60)) = Night \<and>
            getMinutesUntilChange (Some s) Night
              (atTime now ((h1 * 60 + m1 - 1) div 60) ((h1 * 60 + m1 - 1) mod 60)) = Some 1)"
proof (intro conjI impI)
  have c: "0 \<le> currentTotalMinutes now" "currentTotalMinutes now < 1440"
    using assms(1,2) by (simp_all add: currentTotalMinutes_def)
  have e: "int h2 * 60 + int m2 < 1440" "int h1 * 60 + int m1 < int h2 * 60 + int m2"
          "0 \<le> int h1 * 60 + int m1"
    using assms(5,6,9) by simp_all
  show "\<exists>r. getMinutesUntilChange (Some s) (getCurrentTariff (Some s) now) now = Some r \<and>
              0 \<le> r \<and> r < 1440"
    unfolding getMinutesUntilChange_minutes [OF assms(3-8)]
              getCurrentTariff_minutes [OF assms(1-8)]
    using c e by auto
next
  let ?e = "h2 * 60 + m2 - 1"
  have e: "?e < 24 * 60" using assms(5,6) by simp
  have t: "getHours (atTime now (?e div 60) (?e mod 60)) < 24"
       "getMinutes (atTime now (?e div 60) (?e mod 60)) < 60"
    using e by (simp_all add: atTime_fields less_mult_imp_div_less)
  have m: "int (?e div 60) * 60 + int (?e mod 60) = int ?e"
    by (metis (no_types) div_mult_mod_eq of_nat_add of_nat_mult of_nat_numeral)
  have v: "int ?e = int h2 * 60 + int m2 - 1" "int h1 * 60 + int m1 < int h2 * 60 + int m2"
    using assms(9) by linarith+
  show "getCurrentTariff (Some s) (atTime now (?e div 60) (?e mod 60)) = Day"
    unfolding getCurrentTariff_minutes [OF t assms(3-8)] currentTotalMinutes_atTime m
    using v by simp
  show "getMinutesUntilChange (Some s) Day (atTime now (?e div 60) (?e mod 60)) = Some 1"
    unfolding getMinutesUntilChange_minutes [OF assms(3-8)] currentTotalMinutes_atTime m
    using v by simp
next
  assume pos: "0 < h1 * 60 + m1"
  let ?b = "h1 * 60 + m1 - 1"
  have b: "?b < 24 * 60" using assms(3,4) by simp
  have t: "getHours (atTime now (?b div 60) (?b mod 60)) < 24"
       "getMinutes (atTime now (?b div 60) (?b mod 60)) < 60"
    using b by (simp_all add: atTime_fields less_mult_imp_div_less)
  have m: "int (?b div 60) * 60 + int (?b mod 60) = int ?b"
    by (metis (no_types) div_mult_mod_eq of_nat_add of_nat_mult of_nat_numeral)
  have v: "int ?b = int h1 * 60 + int m1 - 1"
    using pos by linarith
  show "getCurrentTariff (Some s) (atTime now (?b div 60) (?b mod 60)) = Night"
    unfolding getCurrentTariff_minutes [OF t assms(3-8)] currentTotalMinutes_atTime m
    using v by simp
next
  assume pos: "0 < h1 * 60 + m1"
  let ?b = "h1 * 60 + m1 - 1"
  have m: "int (?b div 60) * 60 + int (?b mod 60) = int ?b"
    by (metis (no_types) div_mult_mod_eq of_nat_add of_nat_mult of_nat_numeral)
  have v: "int ?b = int h1 * 60 + int m1 - 1" "int h1 * 60 + int m1 < int h2 * 60 + int m2"
    using pos assms(9) by linarith+
  show "getMinutesUntilChange (Some s) Night (atTime now (?b div 60) (?b mod 60)) = Some 1"
    unfolding getMinutesUntilChange_minutes [OF assms(3-8)] currentTotalMinutes_atTime m
    using v by simp
qed

theorem minutesUntilChange_range_witness:
  "getMinutesUntilChange (Some winter) (getCurrentTariff (Some winter) nov3_1000) nov3_1000 = Some 720 \<and>
   getMinutesUntilChange (Some winter) Day (atTime nov3_1000 21 59) = Some 1 \<and>
   getMinutesUntilChange (Some winter) Night (atTime nov3_1000 5 59) = Some 1"
proof -
  have a: "getHours nov3_1000 < 24" "getMinutes nov3_1000 < 60" by (simp_all add: nov3_1000_def)
  have b: "(6::nat) < 24" "(0::nat) < 60" "(22::nat) < 24" by simp_all
  have c: "dayStart winter = Some (hhmm 6 0) \<or> dayStart winter = None \<and> (6::nat) = 6 \<and> (0::nat) = 0"
    by (simp add: winter_def hhmm_0600)
  have d: "dayEnd winter = Some (hhmm 22 0) \<or> dayEnd winter = None \<and> (22::nat) = 22 \<and> (0::nat) = 0"
    by (simp add: winter_def hhmm_2200)
  have e: "(6::nat) * 60 + 0 < 22 * 60 + 0" by simp
  have f: "getMinutesUntilChange (Some winter) (getCurrentTariff (Some winter) nov3_1000) nov3_1000 = Some 720"
    by (simp add: clock_eval)
  from minutesUntilChange_range [OF a b(1,2,3,2) c d e] f
  show ?thesis by simp
qed

text \<open>
  For a season with \<open>dayStart\<close> 22:00 and \<open>dayEnd\<close> 06:00 the result at 07:00 is 2340.
\<close>

theorem minutesUntilChange_counterexample:
  "getHours (atTime nov3_0000 7 0) = 7 \<and> getMinutes (atTime nov3_0000 7 0) = 0 \<and>
   getCurrentTariff (Some reversed_season) (atTime nov3_0000 7 0) = Night \<and>
   getMinutesUntilChange (Some reversed_season)
     (getCurrentTariff (Some reversed_season) (atTime nov3_0000 7 0)) (atTime nov3_0000 7 0) =
     Some 2340"
  by (simp add: clock_eval)

end
